theory Spec2Isabelle
  imports Main "HOL-Library.Char_ord" "HOL-Library.List_Lexorder" "HOL-Library.Sublist"
begin

section \<open>Strings\<close>

text \<open>
  A Python \<open>str\<close> is modelled as a \<open>string\<close> holding its UTF-8 bytes: comparison of
  byte lists is comparison of code-point sequences, which is the order \<open>sorted\<close> uses.
  The digits recognised by \<open>\d\<close> and \<open>int\<close> and the whitespace removed by \<open>strip\<close> are
  the ASCII ones; text with other Unicode digits or spaces is outside this model.
\<close>

definition is_digit :: "char \<Rightarrow> bool" where
  "is_digit c = (CHR ''0'' \<le> c \<and> c \<le> CHR ''9'')"

definition is_space :: "char \<Rightarrow> bool" where
  "is_space c = (let n = (of_char c :: nat) in (9 \<le> n \<and> n \<le> 13) \<or> (28 \<le> n \<and> n \<le> 32))"

definition newline :: char where
  "newline = CHR 0x0A"

definition digit_char :: "nat \<Rightarrow> char" where
  "digit_char d = char_of (48 + d)"

text \<open>\<open>str(i)\<close> for a non-negative integer.\<close>

fun str_nat :: "nat \<Rightarrow> string" where
  "str_nat n = (if n < 10 then [digit_char n] else str_nat (n div 10) @ [digit_char (n mod 10)])"

declare str_nat.simps [simp del]

text \<open>
  \<open>int(s)\<close> for a run of digits. Integers are unbounded: the interpreter's limit on
  the length of a numeral and the memory a long range takes are not modelled.
\<close>

definition int_of_digits :: "string \<Rightarrow> nat" where
  "int_of_digits s = foldl (\<lambda>a c. 10 * a + (of_char c - 48)) 0 s"

definition zfill :: "nat \<Rightarrow> string \<Rightarrow> string" where
  "zfill width s = replicate (width - length s) (CHR ''0'') @ s"

definition str_strip :: "string \<Rightarrow> string" where
  "str_strip s = rev (dropWhile is_space (rev (dropWhile is_space s)))"

text \<open>\<open>s.split(sep)\<close> for a one-character separator.\<close>

fun str_split :: "char \<Rightarrow> string \<Rightarrow> string list" where
  "str_split sep [] = [[]]"
| "str_split sep (c # cs) =
     (if c = sep then [] # str_split sep cs
      else (case str_split sep cs of
              [] \<Rightarrow> [[c]]
            | p # ps \<Rightarrow> (c # p) # ps))"

text \<open>\<open>sep.join(parts)\<close>.\<close>

fun str_join :: "string \<Rightarrow> string list \<Rightarrow> string" where
  "str_join sep [] = []"
| "str_join sep [p] = p"
| "str_join sep (p # q # ps) = p @ sep @ str_join sep (q # ps)"

section \<open>Identifier range expander\<close>

text \<open>
  \<open>\d+$\<close> at the start of the text: a non-empty run of digits reaching the end of the
  text, or the newline that ends it. The result is the run.
\<close>

definition digits_to_end :: "string \<Rightarrow> string option" where
  "digits_to_end cs =
     (let ds = takeWhile is_digit cs; rest = dropWhile is_digit cs
      in if ds \<noteq> [] \<and> (rest = [] \<or> rest = [newline]) then Some ds else None)"

text \<open>\<open>(\d+)\.\.(\d+)$\<close> at the start of the text: groups 2 and 3 of the first pattern.\<close>

definition range_tail :: "string \<Rightarrow> (string \<times> string) option" where
  "range_tail cs =
     (let ds = takeWhile is_digit cs; rest = dropWhile is_digit cs
      in if ds = [] then None
         else (case rest of
                 a # b # rest' \<Rightarrow>
                   (if a = CHR ''.'' \<and> b = CHR ''.'' then
                      (case digits_to_end rest' of
                         Some es \<Rightarrow> Some (ds, es)
                       | None \<Rightarrow> None)
                    else None)
               | _ \<Rightarrow> None))"

text \<open>
  \<open>re.match(r"^(.+?)(\d+)\.\.(\d+)$", token)\<close>. The lazy group takes the shortest
  non-empty prefix, free of newlines, after which the rest of the pattern matches;
  \<open>pre\<close> is what the group holds so far.
\<close>

fun range_match_from :: "string \<Rightarrow> string \<Rightarrow> (string \<times> string \<times> string) option" where
  "range_match_from pre [] = None"
| "range_match_from pre (c # cs) =
     (if c = newline then None
      else (case range_tail cs of
              Some (ds, es) \<Rightarrow> Some (pre @ [c], ds, es)
            | None \<Rightarrow> range_match_from (pre @ [c]) cs))"

definition range_match :: "string \<Rightarrow> (string \<times> string \<times> string) option" where
  "range_match token = range_match_from [] token"

text \<open>\<open>(.+?)(\d+)$\<close> at the start of the text: groups 3 and 4 of the second pattern.\<close>

fun lazy_then_digits :: "string \<Rightarrow> string \<Rightarrow> (string \<times> string) option" where
  "lazy_then_digits pre [] = None"
| "lazy_then_digits pre (c # cs) =
     (if c = newline then None
      else (case digits_to_end cs of
              Some es \<Rightarrow> Some (pre @ [c], es)
            | None \<Rightarrow> lazy_then_digits (pre @ [c]) cs))"

text \<open>\<open>(\d+)\.\.(.+?)(\d+)$\<close> at the start of the text: groups 2, 3 and 4.\<close>

definition range_tail2 :: "string \<Rightarrow> (string \<times> string \<times> string) option" where
  "range_tail2 cs =
     (let ds = takeWhile is_digit cs; rest = dropWhile is_digit cs
      in if ds = [] then None
         else (case rest of
                 a # b # rest' \<Rightarrow>
                   (if a = CHR ''.'' \<and> b = CHR ''.'' then
                      (case lazy_then_digits [] rest' of
                         Some (g3, es) \<Rightarrow> Some (ds, g3, es)
                       | None \<Rightarrow> None)
                    else None)
               | _ \<Rightarrow> None))"

text \<open>\<open>re.match(r"^(.+?)(\d+)\.\.(.+?)(\d+)$", token)\<close>.\<close>

fun range_match2_from :: "string \<Rightarrow> string \<Rightarrow> (string \<times> string \<times> string \<times> string) option" where
  "range_match2_from pre [] = None"
| "range_match2_from pre (c # cs) =
     (if c = newline then None
      else (case range_tail2 cs of
              Some (ds, g3, es) \<Rightarrow> Some (pre @ [c], ds, g3, es)
            | None \<Rightarrow> range_match2_from (pre @ [c]) cs))"

definition range_match2 :: "string \<Rightarrow> (string \<times> string \<times> string \<times> string) option" where
  "range_match2 token = range_match2_from [] token"

text \<open>
  The inner loop \<open>for i in range(start_num, end_num + 1): ids.add(f"{prefix}{str(i).zfill(width)}")\<close>:
  the identifiers it adds, in order.
\<close>

definition range_ids :: "string \<Rightarrow> nat \<Rightarrow> nat \<Rightarrow> nat \<Rightarrow> string list" where
  "range_ids pfx start_num end_num width =
     map (\<lambda>i. pfx @ zfill width (str_nat i)) [start_num ..< end_num + 1]"

text \<open>The body of the loop over the tokens.\<close>

definition add_token :: "string \<Rightarrow> string set \<Rightarrow> string set" where
  "add_token token ids =
     (case range_match token of
        Some (pfx, g2, g3) \<Rightarrow>
          fold insert (range_ids pfx (int_of_digits g2) (int_of_digits g3) (length g2)) ids
      | None \<Rightarrow>
          (case range_match2 token of
             Some (g1, g2, g3, g4) \<Rightarrow>
               (if g1 = g3 then
                  fold insert (range_ids g1 (int_of_digits g2) (int_of_digits g4) (length g2)) ids
                else insert token ids)
           | None \<Rightarrow> insert token ids))"

definition tokens_of :: "string \<Rightarrow> string list" where
  "tokens_of raw = map str_strip (filter (\<lambda>t. str_strip t \<noteq> []) (str_split (CHR '','') raw))"

definition parse_id_list :: "string \<Rightarrow> string list" where
  "parse_id_list raw =
     (if raw = [] then []
      else sorted_list_of_set (fold add_token (tokens_of raw) {}))"

section \<open>JSON values and exceptions\<close>

text \<open>
  The records of the external service are JSON documents, read by the code without any
  type check. A dictionary is an association list; a key is looked up from the front.
  Numbers are integers.
\<close>

datatype json =
    JNull
  | JBool bool
  | JNum int
  | JStr string
  | JArr "json list"
  | JObj "(string \<times> json) list"

text \<open>
  The exceptions the code can meet. \<open>HTTPException\<close> carries the status code and the
  detail; \<open>RequestError\<close> is any failure of the HTTP client itself (time-out, connection).
\<close>

datatype exn =
    HTTPException nat string
  | AttributeError
  | TypeError
  | KeyError
  | IndexError
  | ValueError
  | RequestError

definition ebind :: "exn + 'a \<Rightarrow> ('a \<Rightarrow> exn + 'b) \<Rightarrow> exn + 'b" where
  "ebind m f = (case m of Inl e \<Rightarrow> Inl e | Inr v \<Rightarrow> f v)"

text \<open>Running a function over a list stops at the first exception.\<close>

fun map_exn :: "('a \<Rightarrow> exn + 'b) \<Rightarrow> 'a list \<Rightarrow> exn + 'b list" where
  "map_exn f [] = Inr []"
| "map_exn f (x # xs) =
     (case f x of
        Inl e \<Rightarrow> Inl e
      | Inr y \<Rightarrow> (case map_exn f xs of Inl e \<Rightarrow> Inl e | Inr ys \<Rightarrow> Inr (y # ys)))"

text \<open>Python's truth value of a JSON value (\<open>if x:\<close>, \<open>not x\<close>, \<open>x or y\<close>).\<close>

fun truthy :: "json \<Rightarrow> bool" where
  "truthy JNull = False"
| "truthy (JBool b) = b"
| "truthy (JNum n) = (n \<noteq> 0)"
| "truthy (JStr s) = (s \<noteq> [])"
| "truthy (JArr xs) = (xs \<noteq> [])"
| "truthy (JObj kvs) = (kvs \<noteq> [])"

text \<open>\<open>d.get(key, default)\<close>: only a dictionary has the method.\<close>

definition py_get :: "json \<Rightarrow> string \<Rightarrow> json \<Rightarrow> exn + json" where
  "py_get d k dflt =
     (case d of
        JObj kvs \<Rightarrow> Inr (case map_of kvs k of Some v \<Rightarrow> v | None \<Rightarrow> dflt)
      | _ \<Rightarrow> Inl AttributeError)"

text \<open>The characters of a string: a leading byte with the continuation bytes after it.\<close>

definition is_continuation :: "char \<Rightarrow> bool" where
  "is_continuation c = (let n = (of_char c :: nat) in 128 \<le> n \<and> n < 192)"

function chars_of :: "string \<Rightarrow> string list" where
  "chars_of [] = []"
| "chars_of (c # cs) = (c # takeWhile is_continuation cs) # chars_of (dropWhile is_continuation cs)"
  by pat_completeness auto
termination
  by (relation "measure length") (auto simp: length_dropWhile_le less_Suc_eq_le)

text \<open>\<open>iter(x)\<close>: the items a \<open>for\<close> loop or a generator visits.\<close>

definition py_iter :: "json \<Rightarrow> exn + json list" where
  "py_iter x =
     (case x of
        JArr xs \<Rightarrow> Inr xs
      | JStr s \<Rightarrow> Inr (map JStr (chars_of s))
      | JObj kvs \<Rightarrow> Inr (map (\<lambda>kv. JStr (fst kv)) kvs)
      | _ \<Rightarrow> Inl TypeError)"

text \<open>\<open>x[0]\<close>.\<close>

definition py_index0 :: "json \<Rightarrow> exn + json" where
  "py_index0 x =
     (case x of
        JArr xs \<Rightarrow> (case xs of [] \<Rightarrow> Inl IndexError | y # _ \<Rightarrow> Inr y)
      | JStr s \<Rightarrow> (case chars_of s of [] \<Rightarrow> Inl IndexError | c # _ \<Rightarrow> Inr (JStr c))
      | JObj kvs \<Rightarrow> Inl KeyError
      | _ \<Rightarrow> Inl TypeError)"

definition as_str :: "json \<Rightarrow> exn + string" where
  "as_str x = (case x of JStr s \<Rightarrow> Inr s | _ \<Rightarrow> Inl TypeError)"

section \<open>Record field extractors\<close>

text \<open>
  \<open>"".join(item.get("plain_text", "") for item in arr)\<close>: \<open>join\<close> first runs the
  generator to its end, then requires every part to be a string.
\<close>

definition join_plain_text :: "json \<Rightarrow> exn + string" where
  "join_plain_text arr =
     ebind (py_iter arr) (\<lambda>items.
     ebind (map_exn (\<lambda>item. py_get item ''plain_text'' (JStr [])) items) (\<lambda>parts.
     ebind (map_exn as_str parts) (\<lambda>strs.
     Inr (concat strs))))"

definition extract_rich_text :: "json \<Rightarrow> exn + string" where
  "extract_rich_text prop =
     (if \<not> truthy prop then Inr []
      else
        ebind (py_get prop ''type'' (JStr [])) (\<lambda>prop_type.
        ebind (if prop_type = JStr ''rich_text'' then py_get prop ''rich_text'' (JArr [])
               else if prop_type = JStr ''title'' then py_get prop ''title'' (JArr [])
               else ebind (py_get prop ''rich_text'' (JArr [])) (\<lambda>a.
                    if truthy a then Inr a else py_get prop ''title'' (JArr []))) (\<lambda>arr.
        if \<not> truthy arr then Inr []
        else ebind (join_plain_text arr) (\<lambda>joined. Inr (str_strip joined)))))"

definition extract_select :: "json \<Rightarrow> exn + json" where
  "extract_select prop =
     (if \<not> truthy prop then Inr (JStr [])
      else
        ebind (py_get prop ''select'' JNull) (\<lambda>select_obj.
        if truthy select_obj then py_get select_obj ''name'' (JStr [])
        else Inr (JStr [])))"

definition extract_checkbox :: "json \<Rightarrow> exn + json" where
  "extract_checkbox prop =
     (if \<not> truthy prop then Inr (JBool False)
      else py_get prop ''checkbox'' (JBool False))"

definition extract_date :: "json \<Rightarrow> exn + json" where
  "extract_date prop =
     (if \<not> truthy prop then Inr (JStr [])
      else
        ebind (py_get prop ''date'' JNull) (\<lambda>date_obj.
        if truthy date_obj then
          ebind (py_get date_obj ''start'' (JStr [])) (\<lambda>start.
          Inr (if truthy start then start else JStr []))
        else Inr (JStr [])))"

definition extract_url :: "json \<Rightarrow> exn + json" where
  "extract_url prop =
     (if \<not> truthy prop then Inr (JStr [])
      else
        ebind (py_get prop ''type'' (JStr [])) (\<lambda>prop_type.
        if prop_type = JStr ''url'' then
          ebind (py_get prop ''url'' (JStr [])) (\<lambda>u.
          Inr (if truthy u then u else JStr []))
        else if prop_type = JStr ''rich_text'' then
          ebind (extract_rich_text prop) (\<lambda>t. Inr (JStr t))
        else Inr (JStr [])))"

definition get_prop :: "json \<Rightarrow> string \<Rightarrow> exn + json" where
  "get_prop page name =
     ebind (py_get page ''properties'' (JObj [])) (\<lambda>props. py_get props name (JObj []))"

text \<open>The call shapes of the orchestrator: \<open>extract_rich_text(get_prop(page, name))\<close> and
  \<open>extract_select(get_prop(page, name)) or extract_rich_text(get_prop(page, name))\<close>.\<close>

definition text_of :: "json \<Rightarrow> string \<Rightarrow> exn + string" where
  "text_of page name = ebind (get_prop page name) extract_rich_text"

definition select_or_text :: "json \<Rightarrow> string \<Rightarrow> exn + json" where
  "select_or_text page name =
     ebind (ebind (get_prop page name) extract_select) (\<lambda>v.
     if truthy v then Inr v
     else ebind (text_of page name) (\<lambda>t. Inr (JStr t)))"

section \<open>External table client\<close>

text \<open>
  The external service is outside the program: it is a parameter \<open>post\<close>, the one HTTP
  request the client makes. It takes the service's state, the URL, the headers and the
  JSON body, and returns what the request produced and the next state, so that the
  service may answer every call differently. A reply has a status code, the raw text and
  the decoded JSON of the text (\<open>None\<close> when \<open>response.json()\<close> raises).
\<close>

datatype post_outcome =
    Response nat string "json option"
  | RequestFailed

type_synonym 's transport =
  "'s \<Rightarrow> string \<Rightarrow> (string \<times> string) list \<Rightarrow> json \<Rightarrow> post_outcome \<times> 's"

record config =
  NOTION_TOKEN :: string
  AUTH_TOKEN :: string
  PLAN_DB_ID :: string
  OBJECTIVES_DB_ID :: string
  RESOURCES_DB_ID :: string
  PRACTICE_DB_ID :: string
  MISTAKES_DB_ID :: string

definition NOTION_API_VERSION :: string where
  "NOTION_API_VERSION = ''2022-06-28''"

definition NOTION_BASE_URL :: string where
  "NOTION_BASE_URL = ''https://api.notion.com/v1''"

definition headers :: "string \<Rightarrow> (string \<times> string) list" where
  "headers token =
     [(''Authorization'', ''Bearer '' @ token),
      (''Notion-Version'', NOTION_API_VERSION),
      (''Content-Type'', ''application/json'')]"

definition query_database ::
  "'s transport \<Rightarrow> 's \<Rightarrow> string \<Rightarrow> string \<Rightarrow> json option \<Rightarrow> json option \<Rightarrow> (exn + json) \<times> 's" where
  "query_database post s token database_id filter_obj sorts =
     (let url = NOTION_BASE_URL @ ''/databases/'' @ database_id @ ''/query'';
          body = (case filter_obj of
                    Some f \<Rightarrow> (if truthy f then [(''filter'', f)] else [])
                  | None \<Rightarrow> [])
               @ (case sorts of
                    Some so \<Rightarrow> (if truthy so then [(''sorts'', so)] else [])
                  | None \<Rightarrow> [])
      in case post s url (headers token) (JObj body) of
           (RequestFailed, s') \<Rightarrow> (Inl RequestError, s')
         | (Response status_code text js, s') \<Rightarrow>
             (if status_code \<noteq> 200 then
                (Inl (HTTPException 502
                        (''Notion API error: '' @ str_nat status_code @ '' - '' @ text)), s')
              else (case js of
                      None \<Rightarrow> (Inl ValueError, s')
                    | Some data \<Rightarrow> (py_get data ''results'' (JArr []), s'))))"

definition query_by_date ::
  "'s transport \<Rightarrow> 's \<Rightarrow> string \<Rightarrow> string \<Rightarrow> string \<Rightarrow> string \<Rightarrow> (exn + json) \<times> 's" where
  "query_by_date post s token database_id date_property date_value =
     query_database post s token database_id
       (Some (JObj [(''property'', JStr date_property),
                    (''date'', JObj [(''equals'', JStr date_value)])]))
       None"

definition query_by_text_equals ::
  "'s transport \<Rightarrow> 's \<Rightarrow> string \<Rightarrow> string \<Rightarrow> string \<Rightarrow> string \<Rightarrow> (exn + json) \<times> 's" where
  "query_by_text_equals post s token database_id property_name v =
     query_database post s token database_id
       (Some (JObj [(''or'', JArr
          [JObj [(''property'', JStr property_name), (''rich_text'', JObj [(''equals'', JStr v)])],
           JObj [(''property'', JStr property_name), (''title'', JObj [(''equals'', JStr v)])]])]))
       None"

definition query_unresolved_mistakes ::
  "'s transport \<Rightarrow> 's \<Rightarrow> string \<Rightarrow> string \<Rightarrow> (exn + json) \<times> 's" where
  "query_unresolved_mistakes post s token database_id =
     query_database post s token database_id
       (Some (JObj [(''property'', JStr ''Resolved''),
                    (''checkbox'', JObj [(''equals'', JBool False)])]))
       (Some (JArr [JObj [(''timestamp'', JStr ''created_time''),
                          (''direction'', JStr ''descending'')]]))"

section \<open>Digest builder\<close>

record webhook_request =
  run_date :: string
  timezone :: string

record debug_info =
  date :: string
  objectives_count :: int
  resources_count :: int
  practice_test_found :: bool
  mistakes_found :: int

record webhook_response =
  should_send :: bool
  subject :: string
  body :: string
  reason :: string
  debug :: debug_info

text \<open>An HTTP response: the status code and the JSON content.\<close>

type_synonym http_response = "nat \<times> json"

definition JSONResponse :: "nat \<Rightarrow> json \<Rightarrow> http_response" where
  "JSONResponse status_code content = (status_code, content)"

definition model_dump :: "webhook_response \<Rightarrow> json" where
  "model_dump r =
     JObj [(''should_send'', JBool (should_send r)),
           (''subject'', JStr (subject r)),
           (''body'', JStr (body r)),
           (''reason'', JStr (reason r)),
           (''debug'', JObj [(''date'', JStr (date (debug r))),
                             (''objectives_count'', JNum (objectives_count (debug r))),
                             (''resources_count'', JNum (resources_count (debug r))),
                             (''practice_test_found'', JBool (practice_test_found (debug r))),
                             (''mistakes_found'', JNum (mistakes_found (debug r)))])]"

text \<open>A dictionary returned by the endpoint is sent with status 200.\<close>

definition returned :: "webhook_response \<Rightarrow> http_response" where
  "returned r = (200, model_dump r)"

definition em_dash :: string where
  "em_dash = [CHR 0xE2, CHR 0x80, CHR 0x94]"

definition en_dash :: string where
  "en_dash = [CHR 0xE2, CHR 0x80, CHR 0x93]"

subsection \<open>The plan row\<close>

record plan_details =
  phase :: string
  focus_priority :: json
  session1_text :: string
  session1_resources_raw :: string
  session2_text :: string
  session2_resources_raw :: string
  focus_objectives_raw :: string

definition extract_plan_details :: "json \<Rightarrow> exn + plan_details" where
  "extract_plan_details plan =
     ebind (text_of plan ''Phase'') (\<lambda>ph.
     ebind (select_or_text plan ''Focus Priority'') (\<lambda>fp.
     ebind (text_of plan (''Session 1 (1 hr) '' @ en_dash @ '' Learn'')) (\<lambda>s1t.
     ebind (text_of plan ''Session 1 Resources (IDs/URLs)'') (\<lambda>s1r.
     ebind (text_of plan (''Session 2 (1 hr) '' @ en_dash @ '' Lab/Practice'')) (\<lambda>s2t.
     ebind (text_of plan ''Session 2 Resources (IDs/URLs)'') (\<lambda>s2r.
     ebind (text_of plan ''Focus objectives (IDs)'') (\<lambda>fo.
     Inr \<lparr>phase = ph, focus_priority = fp,
          session1_text = s1t, session1_resources_raw = s1r,
          session2_text = s2t, session2_resources_raw = s2r,
          focus_objectives_raw = fo\<rparr>)))))))"

subsection \<open>Objectives\<close>

record objective =
  o_id :: string
  o_objective :: string
  o_exam_area :: json
  o_skill_group :: json
  o_priority :: json
  o_primary_resources :: string

definition shape_objective :: "string \<Rightarrow> json \<Rightarrow> exn + objective" where
  "shape_objective obj_id obj_page =
     ebind (text_of obj_page ''Objective'') (\<lambda>ob.
     ebind (select_or_text obj_page ''Exam Area'') (\<lambda>ea.
     ebind (select_or_text obj_page ''Skill Group'') (\<lambda>sg.
     ebind (select_or_text obj_page ''Priority'') (\<lambda>pr.
     ebind (text_of obj_page ''Primary Resources (IDs)'') (\<lambda>prs.
     Inr \<lparr>o_id = obj_id, o_objective = ob, o_exam_area = ea, o_skill_group = sg,
          o_priority = pr, o_primary_resources = prs\<rparr>)))))"

text \<open>
  One turn of the loop over the objective identifiers: the body of the \<open>try\<close>, whose
  every exception is swallowed. \<open>None\<close> when nothing is appended.
\<close>

definition fetch_objective ::
  "config \<Rightarrow> 's transport \<Rightarrow> 's \<Rightarrow> string \<Rightarrow> objective option \<times> 's" where
  "fetch_objective cfg post s obj_id =
     (case query_by_text_equals post s (NOTION_TOKEN cfg) (OBJECTIVES_DB_ID cfg) ''Objective ID'' obj_id of
        (Inl e, s') \<Rightarrow> (None, s')
      | (Inr results, s') \<Rightarrow>
          (if truthy results then
             (case ebind (py_index0 results) (shape_objective obj_id) of
                Inl e \<Rightarrow> (None, s')
              | Inr obj \<Rightarrow> (Some obj, s'))
           else (None, s')))"

fun fetch_objectives ::
  "config \<Rightarrow> 's transport \<Rightarrow> 's \<Rightarrow> string list \<Rightarrow> objective list \<times> 's" where
  "fetch_objectives cfg post s [] = ([], s)"
| "fetch_objectives cfg post s (obj_id # ids) =
     (case fetch_objective cfg post s obj_id of
        (r, s') \<Rightarrow>
          (case fetch_objectives cfg post s' ids of
             (objs, s'') \<Rightarrow> ((case r of None \<Rightarrow> objs | Some obj \<Rightarrow> obj # objs), s'')))"

subsection \<open>Resources\<close>

record resource =
  r_id :: string
  r_name :: string
  r_type :: json
  r_url :: json
  r_why :: string

definition shape_resource :: "string \<Rightarrow> json \<Rightarrow> exn + resource" where
  "shape_resource res_id res_page =
     ebind (text_of res_page ''Name'') (\<lambda>nm.
     ebind (select_or_text res_page ''Type'') (\<lambda>ty.
     ebind (ebind (get_prop res_page ''URL'') extract_url) (\<lambda>u.
     ebind (text_of res_page ''Why it matters'') (\<lambda>w.
     Inr \<lparr>r_id = res_id, r_name = nm, r_type = ty, r_url = u, r_why = w\<rparr>))))"

definition fetch_resource ::
  "config \<Rightarrow> 's transport \<Rightarrow> 's \<Rightarrow> string \<Rightarrow> resource option \<times> 's" where
  "fetch_resource cfg post s res_id =
     (case query_by_text_equals post s (NOTION_TOKEN cfg) (RESOURCES_DB_ID cfg) ''Resource ID'' res_id of
        (Inl e, s') \<Rightarrow> (None, s')
      | (Inr results, s') \<Rightarrow>
          (if truthy results then
             (case ebind (py_index0 results) (shape_resource res_id) of
                Inl e \<Rightarrow> (None, s')
              | Inr res \<Rightarrow> (Some res, s'))
           else (None, s')))"

fun fetch_resources ::
  "config \<Rightarrow> 's transport \<Rightarrow> 's \<Rightarrow> string list \<Rightarrow> resource list \<times> 's" where
  "fetch_resources cfg post s [] = ([], s)"
| "fetch_resources cfg post s (res_id # ids) =
     (case fetch_resource cfg post s res_id of
        (r, s') \<Rightarrow>
          (case fetch_resources cfg post s' ids of
             (ress, s'') \<Rightarrow> ((case r of None \<Rightarrow> ress | Some res \<Rightarrow> res # ress), s'')))"

text \<open>The raw resource references: both sessions', then each fetched objective's.\<close>

definition resource_ids_raw :: "plan_details \<Rightarrow> objective list \<Rightarrow> string" where
  "resource_ids_raw d objectives =
     fold (\<lambda>obj raw. if o_primary_resources obj \<noteq> [] then raw @ '', '' @ o_primary_resources obj
                      else raw)
          objectives
          (session1_resources_raw d @ '', '' @ session2_resources_raw d)"

subsection \<open>Practice test\<close>

record practice_test =
  pt_provider :: json
  pt_test :: string
  pt_focus :: string
  pt_notes :: string

definition shape_practice_test :: "json \<Rightarrow> exn + practice_test" where
  "shape_practice_test pt =
     ebind (select_or_text pt ''Provider'') (\<lambda>pv.
     ebind (text_of pt ''Test'') (\<lambda>te.
     ebind (text_of pt ''Primary Focus'') (\<lambda>fo.
     ebind (text_of pt ''Notes'') (\<lambda>no.
     Inr \<lparr>pt_provider = pv, pt_test = te, pt_focus = fo, pt_notes = no\<rparr>))))"

definition fetch_practice_test ::
  "config \<Rightarrow> 's transport \<Rightarrow> 's \<Rightarrow> string \<Rightarrow> debug_info \<Rightarrow> (practice_test option \<times> debug_info) \<times> 's" where
  "fetch_practice_test cfg post s rd dbg =
     (case query_by_date post s (NOTION_TOKEN cfg) (PRACTICE_DB_ID cfg) ''Date'' rd of
        (Inl e, s') \<Rightarrow> ((None, dbg), s')
      | (Inr practice_results, s') \<Rightarrow>
          (if truthy practice_results then
             (case ebind (py_index0 practice_results) shape_practice_test of
                Inl e \<Rightarrow> ((None, dbg), s')
              | Inr pt \<Rightarrow> ((Some pt, dbg\<lparr>practice_test_found := True\<rparr>), s'))
           else ((None, dbg), s')))"

subsection \<open>Mistakes\<close>

record mistake =
  m_objective_id :: string
  m_summary :: string
  m_rule :: string
  m_tip :: string

text \<open>
  One turn of the loop over the unresolved mistakes: \<open>Inr None\<close> when the mistake is
  not about one of today's objectives, \<open>Inr (Some x)\<close> when \<open>x\<close> is appended.
\<close>

definition shape_mistake :: "string list \<Rightarrow> json \<Rightarrow> exn + mistake option" where
  "shape_mistake objective_ids m =
     ebind (text_of m ''Objective ID'') (\<lambda>mistake_obj_id.
     if mistake_obj_id \<in> set objective_ids then
       ebind (text_of m ''Mistake Summary'') (\<lambda>su.
       ebind (text_of m ''Correct Rule'') (\<lambda>ru.
       ebind (text_of m ''Recognition Tip'') (\<lambda>ti.
       Inr (Some \<lparr>m_objective_id = mistake_obj_id, m_summary = su, m_rule = ru, m_tip = ti\<rparr>))))
     else Inr None)"

text \<open>
  The loop appends to the list \<open>mistakes\<close> in place. An exception leaves the loop with
  what has been appended so far: the result is the list and whether the loop came to
  its end.
\<close>

fun collect_mistakes :: "string list \<Rightarrow> json list \<Rightarrow> mistake list \<Rightarrow> mistake list \<times> bool" where
  "collect_mistakes objective_ids [] mistakes = (mistakes, True)"
| "collect_mistakes objective_ids (m # ms) mistakes =
     (case shape_mistake objective_ids m of
        Inl e \<Rightarrow> (mistakes, False)
      | Inr None \<Rightarrow> collect_mistakes objective_ids ms mistakes
      | Inr (Some x) \<Rightarrow> collect_mistakes objective_ids ms (mistakes @ [x]))"

definition fetch_mistakes ::
  "config \<Rightarrow> 's transport \<Rightarrow> 's \<Rightarrow> string list \<Rightarrow> debug_info \<Rightarrow> (mistake list \<times> debug_info) \<times> 's" where
  "fetch_mistakes cfg post s objective_ids dbg =
     (case query_unresolved_mistakes post s (NOTION_TOKEN cfg) (MISTAKES_DB_ID cfg) of
        (Inl e, s') \<Rightarrow> (([], dbg), s')
      | (Inr all_mistakes, s') \<Rightarrow>
          (case py_iter all_mistakes of
             Inl e \<Rightarrow> (([], dbg), s')
           | Inr ms \<Rightarrow>
               (case collect_mistakes objective_ids ms [] of
                  (mistakes, False) \<Rightarrow> ((mistakes, dbg), s')
                | (mistakes, True) \<Rightarrow>
                    ((take 3 mistakes, dbg\<lparr>mistakes_found := int (length (take 3 mistakes))\<rparr>), s'))))"

subsection \<open>Assembly\<close>

text \<open>What steps 6 to 11 of the endpoint leave in its local variables.\<close>

record assembly =
  a_objective_ids :: "string list"
  a_objectives :: "objective list"
  a_resource_ids :: "string list"
  a_resources :: "resource list"
  a_practice_test :: "practice_test option"
  a_mistakes :: "mistake list"
  a_debug :: debug_info

text \<open>Steps 6 to 10: what they leave, and the state of the service after them.\<close>

definition steps_6_to_10 ::
  "config \<Rightarrow> 's transport \<Rightarrow> 's \<Rightarrow> string \<Rightarrow> plan_details \<Rightarrow> debug_info
     \<Rightarrow> (string list \<times> objective list \<times> string list \<times> resource list
          \<times> practice_test option \<times> debug_info) \<times> 's" where
  "steps_6_to_10 cfg post s rd d dbg =
     (let objective_ids = parse_id_list (focus_objectives_raw d);
          dbg1 = dbg\<lparr>objectives_count := int (length objective_ids)\<rparr>
      in case fetch_objectives cfg post s objective_ids of
           (objectives, s2) \<Rightarrow>
             (let resource_ids = parse_id_list (resource_ids_raw d objectives);
                  dbg2 = dbg1\<lparr>resources_count := int (length resource_ids)\<rparr>
              in case fetch_resources cfg post s2 resource_ids of
                   (resources, s3) \<Rightarrow>
                     (case fetch_practice_test cfg post s3 rd dbg2 of
                        ((practice, dbg3), s4) \<Rightarrow>
                          ((objective_ids, objectives, resource_ids, resources, practice, dbg3), s4))))"

definition assemble ::
  "config \<Rightarrow> 's transport \<Rightarrow> 's \<Rightarrow> string \<Rightarrow> plan_details \<Rightarrow> debug_info \<Rightarrow> assembly" where
  "assemble cfg post s rd d dbg =
     (case steps_6_to_10 cfg post s rd d dbg of
        ((objective_ids, objectives, resource_ids, resources, practice, dbg3), s4) \<Rightarrow>
          (case fetch_mistakes cfg post s4 objective_ids dbg3 of
             ((mistakes, dbg4), s5) \<Rightarrow>
               \<lparr>a_objective_ids = objective_ids,
                a_objectives = objectives,
                a_resource_ids = resource_ids,
                a_resources = resources,
                a_practice_test = practice,
                a_mistakes = mistakes,
                a_debug = dbg4\<rparr>))"

subsection \<open>Rendering\<close>

text \<open>
  A value placed in an f-string: a string as it is; any other value through Python's
  \<open>str\<close>, which is the parameter \<open>py_str\<close>.
\<close>

definition format_value :: "(json \<Rightarrow> string) \<Rightarrow> json \<Rightarrow> string" where
  "format_value py_str v = (case v of JStr t \<Rightarrow> t | _ \<Rightarrow> py_str v)"

definition rule_line :: string where
  "rule_line = ''================================''"

definition objective_line :: "(json \<Rightarrow> string) \<Rightarrow> objective \<Rightarrow> string" where
  "objective_line py_str obj =
     (let obj_line = ''- '' @ o_id obj @ '' '' @ em_dash @ '' '' @ o_objective obj;
          details =
            (if truthy (o_exam_area obj) then [''Exam Area: '' @ format_value py_str (o_exam_area obj)] else [])
          @ (if truthy (o_skill_group obj) then [''Skill: '' @ format_value py_str (o_skill_group obj)] else [])
          @ (if truthy (o_priority obj) then [''Priority: '' @ format_value py_str (o_priority obj)] else [])
      in if details \<noteq> [] then obj_line @ '' ('' @ str_join '' | '' details @ '')'' else obj_line)"

definition resource_lines :: "(json \<Rightarrow> string) \<Rightarrow> resource \<Rightarrow> string list" where
  "resource_lines py_str res =
     [''- '' @ r_id res @ '' '' @ em_dash @ '' '' @ r_name res @ '' ('' @ format_value py_str (r_type res) @ '')'']
     @ (if truthy (r_url res) then [''  URL: '' @ format_value py_str (r_url res)] else [])
     @ (if r_why res \<noteq> [] then [''  Why: '' @ r_why res] else [])"

definition practice_lines :: "(json \<Rightarrow> string) \<Rightarrow> practice_test \<Rightarrow> string list" where
  "practice_lines py_str pt =
     [format_value py_str (pt_provider pt) @ '' '' @ em_dash @ '' '' @ pt_test pt]
     @ (if pt_focus pt \<noteq> [] then [''Focus: '' @ pt_focus pt] else [])
     @ (if pt_notes pt \<noteq> [] then [''Notes: '' @ pt_notes pt] else [])"

definition mistake_lines :: "mistake \<Rightarrow> string list" where
  "mistake_lines m =
     [''- Mistake: '' @ m_summary m]
     @ (if m_rule m \<noteq> [] then [''  Rule: '' @ m_rule m] else [])
     @ (if m_tip m \<noteq> [] then [''  Tip: '' @ m_tip m] else [])"

definition body_lines :: "(json \<Rightarrow> string) \<Rightarrow> string \<Rightarrow> plan_details \<Rightarrow> assembly \<Rightarrow> string list" where
  "body_lines py_str rd d a =
     [''MD-102 DAILY STUDY BRIEF'',
      ''Date: '' @ rd,
      ''Phase: '' @ phase d,
      ''Priority: '' @ format_value py_str (focus_priority d),
      [],
      rule_line,
      ''TODAY'S STUDY SESSIONS'',
      rule_line,
      ''SESSION 1 '' @ em_dash @ '' LEARN (1 hour)'',
      (if session1_text d \<noteq> [] then session1_text d else ''(No details)''),
      ''Resources (IDs/URLs):'',
      (if session1_resources_raw d \<noteq> [] then session1_resources_raw d else ''(None)''),
      [],
      ''SESSION 2 '' @ em_dash @ '' LAB / PRACTICE (1 hour)'',
      (if session2_text d \<noteq> [] then session2_text d else ''(No details)''),
      ''Resources (IDs/URLs):'',
      (if session2_resources_raw d \<noteq> [] then session2_resources_raw d else ''(None)''),
      [],
      rule_line,
      ''TODAY'S OBJECTIVES'',
      rule_line]
     @ (if a_objectives a \<noteq> [] then map (objective_line py_str) (a_objectives a)
        else [''(No objectives found)''])
     @ [[], rule_line, ''KEY RESOURCES'', rule_line]
     @ (if a_resources a \<noteq> [] then concat (map (resource_lines py_str) (a_resources a))
        else [''(No resources found)''])
     @ [[], rule_line, ''PRACTICE TEST (IF ANY)'', rule_line]
     @ (case a_practice_test a of
          Some pt \<Rightarrow> practice_lines py_str pt
        | None \<Rightarrow> [''(No practice test scheduled for today)''])
     @ [[], rule_line, ''OPEN MISTAKES (IF ANY)'', rule_line]
     @ (if a_mistakes a \<noteq> [] then concat (map mistake_lines (a_mistakes a))
        else [''(No open mistakes for today's objectives)''])
     @ [[], rule_line, ''COMPLETION CHECKLIST'', rule_line,
        ''[ ] Session 1 Done'', ''[ ] Session 2 Done'']"

definition subject_line :: "(json \<Rightarrow> string) \<Rightarrow> plan_details \<Rightarrow> string" where
  "subject_line py_str d =
     (if truthy (focus_priority d) then
        ''MD-102 '' @ em_dash @ '' Daily Study Brief ('' @ format_value py_str (focus_priority d) @ '')''
      else ''MD-102 '' @ em_dash @ '' Daily Study Brief'')"

definition ok_response :: "(json \<Rightarrow> string) \<Rightarrow> string \<Rightarrow> plan_details \<Rightarrow> assembly \<Rightarrow> webhook_response" where
  "ok_response py_str rd d a =
     \<lparr>should_send = True,
      subject = subject_line py_str d,
      body = str_join [newline] (body_lines py_str rd d a),
      reason = ''ok'',
      debug = a_debug a\<rparr>"

subsection \<open>The endpoint\<close>

definition missing_dbs :: "config \<Rightarrow> string list" where
  "missing_dbs cfg =
     (if PLAN_DB_ID cfg = [] then [''PLAN_DB_ID''] else [])
   @ (if OBJECTIVES_DB_ID cfg = [] then [''OBJECTIVES_DB_ID''] else [])
   @ (if RESOURCES_DB_ID cfg = [] then [''RESOURCES_DB_ID''] else [])
   @ (if PRACTICE_DB_ID cfg = [] then [''PRACTICE_DB_ID''] else [])
   @ (if MISTAKES_DB_ID cfg = [] then [''MISTAKES_DB_ID''] else [])"

definition initial_debug :: "webhook_request \<Rightarrow> debug_info" where
  "initial_debug request =
     \<lparr>date = run_date request, objectives_count = 0, resources_count = 0,
      practice_test_found = False, mistakes_found = 0\<rparr>"

definition early_response :: "string \<Rightarrow> debug_info \<Rightarrow> webhook_response" where
  "early_response why dbg =
     \<lparr>should_send = False, subject = [], body = [], reason = why, debug = dbg\<rparr>"

text \<open>
  Steps 4 to 14 of the endpoint, for the plan row found. \<open>Inl\<close> is an exception that
  leaves the endpoint.
\<close>

definition digest_for_plan ::
  "config \<Rightarrow> 's transport \<Rightarrow> (json \<Rightarrow> string) \<Rightarrow> 's \<Rightarrow> webhook_request \<Rightarrow> json \<Rightarrow> exn + http_response" where
  "digest_for_plan cfg post py_str s request plan =
     ebind (ebind (get_prop plan ''Session 1 Done'') extract_checkbox) (\<lambda>session1_done.
     ebind (ebind (get_prop plan ''Session 2 Done'') extract_checkbox) (\<lambda>session2_done.
     if truthy session1_done \<and> truthy session2_done then
       Inr (returned (early_response ''completed'' (initial_debug request)))
     else
       ebind (extract_plan_details plan) (\<lambda>d.
       Inr (returned (ok_response py_str (run_date request) d
              (assemble cfg post s (run_date request) d (initial_debug request)))))))"

text \<open>
  \<open>generate_study_email\<close>: \<open>x_auth_token\<close> is the header, \<open>None\<close> when the request has
  none; \<open>s\<close> is the state of the external service when the request arrives.
\<close>

definition generate_study_email ::
  "config \<Rightarrow> 's transport \<Rightarrow> (json \<Rightarrow> string) \<Rightarrow> 's \<Rightarrow> webhook_request \<Rightarrow> string option
     \<Rightarrow> exn + http_response" where
  "generate_study_email cfg post py_str s request x_auth_token =
     (if AUTH_TOKEN cfg = [] then
        Inr (JSONResponse 500 (JObj [(''error'', JStr ''Server misconfigured: AUTH_TOKEN not set'')]))
      else if (case x_auth_token of None \<Rightarrow> True | Some t \<Rightarrow> t = [] \<or> t \<noteq> AUTH_TOKEN cfg) then
        Inr (JSONResponse 401 (JObj [(''error'', JStr ''Unauthorized: Invalid or missing X-AUTH-TOKEN'')]))
      else if NOTION_TOKEN cfg = [] then
        Inr (JSONResponse 500 (JObj [(''error'', JStr ''Server misconfigured: NOTION_TOKEN not set'')]))
      else if missing_dbs cfg \<noteq> [] then
        Inr (JSONResponse 500
               (JObj [(''error'', JStr (''Missing database IDs: '' @ str_join '', '' (missing_dbs cfg)))]))
      else
        (case query_by_date post s (NOTION_TOKEN cfg) (PLAN_DB_ID cfg) ''Date'' (run_date request) of
           (Inl e, s1) \<Rightarrow>
             (case e of
                HTTPException status_code detail \<Rightarrow>
                  Inr (JSONResponse status_code (JObj [(''error'', JStr detail)]))
              | _ \<Rightarrow> Inl e)
         | (Inr plan_results, s1) \<Rightarrow>
             (if \<not> truthy plan_results then
                Inr (returned (early_response ''no_plan'' (initial_debug request)))
              else
                ebind (py_index0 plan_results) (\<lambda>plan.
                digest_for_plan cfg post py_str s1 request plan))))"

text \<open>
  \<open>global_exception_handler\<close>, given \<open>str(exc)\<close>, and the application: an exception
  that leaves the endpoint is answered by the handler. \<open>str_exc\<close> is Python's \<open>str\<close> on
  an exception.
\<close>

definition global_exception_handler :: "string \<Rightarrow> http_response" where
  "global_exception_handler msg =
     JSONResponse 500
       (JObj [(''should_send'', JBool False),
              (''subject'', JStr []),
              (''body'', JStr []),
              (''reason'', JStr ''error''),
              (''error'', JStr msg),
              (''debug'', JObj [(''date'', JStr []),
                                (''objectives_count'', JNum 0),
                                (''resources_count'', JNum 0),
                                (''practice_test_found'', JBool False),
                                (''mistakes_found'', JNum 0)])])"

definition webhook ::
  "(exn \<Rightarrow> string) \<Rightarrow> config \<Rightarrow> 's transport \<Rightarrow> (json \<Rightarrow> string) \<Rightarrow> 's \<Rightarrow> webhook_request
     \<Rightarrow> string option \<Rightarrow> http_response" where
  "webhook str_exc cfg post py_str s request x_auth_token =
     (case generate_study_email cfg post py_str s request x_auth_token of
        Inl e \<Rightarrow> global_exception_handler (str_exc e)
      | Inr r \<Rightarrow> r)"

text \<open>A field of a response's content.\<close>

definition content_field :: "string \<Rightarrow> http_response \<Rightarrow> json option" where
  "content_field k r = (case snd r of JObj kvs \<Rightarrow> map_of kvs k | _ \<Rightarrow> None)"

section \<open>Observations and sample data\<close>

text \<open>The conditions under which a request gets past the first two steps of the endpoint.\<close>

definition authenticated :: "config \<Rightarrow> string option \<Rightarrow> bool" where
  "authenticated cfg x_auth_token = (AUTH_TOKEN cfg \<noteq> [] \<and> x_auth_token = Some (AUTH_TOKEN cfg))"

definition configured :: "config \<Rightarrow> bool" where
  "configured cfg = (NOTION_TOKEN cfg \<noteq> [] \<and> missing_dbs cfg = [])"

text \<open>The plan query of step 3, as the endpoint issues it.\<close>

definition plan_query ::
  "config \<Rightarrow> 's transport \<Rightarrow> 's \<Rightarrow> webhook_request \<Rightarrow> (exn + json) \<times> 's" where
  "plan_query cfg post s request =
     query_by_date post s (NOTION_TOKEN cfg) (PLAN_DB_ID cfg) ''Date'' (run_date request)"

text \<open>The two completion flags of a plan row, as step 4 reads them.\<close>

definition session_done :: "json \<Rightarrow> string \<Rightarrow> exn + json" where
  "session_done plan name = ebind (get_prop plan name) extract_checkbox"


text \<open>The body of the request that the plan query posts.\<close>

definition plan_request_body :: "webhook_request \<Rightarrow> json" where
  "plan_request_body request =
     JObj [(''filter'', JObj [(''property'', JStr ''Date''),
                              (''date'', JObj [(''equals'', JStr (run_date request))])])]"



text \<open>The response envelope: the five fields of \<open>WebhookResponse\<close>.\<close>

definition envelope_keys :: "string list" where
  "envelope_keys = [''should_send'', ''subject'', ''body'', ''reason'', ''debug'']"

definition has_envelope :: "http_response \<Rightarrow> bool" where
  "has_envelope r = list_all (\<lambda>k. content_field k r \<noteq> None) envelope_keys"

text \<open>A sample configuration and a sample service that answers by table, whatever its state.\<close>

definition demo_cfg :: config where
  "demo_cfg =
     \<lparr>NOTION_TOKEN = ''secret'', AUTH_TOKEN = ''token'', PLAN_DB_ID = ''plan'',
      OBJECTIVES_DB_ID = ''objectives'', RESOURCES_DB_ID = ''resources'',
      PRACTICE_DB_ID = ''practice'', MISTAKES_DB_ID = ''mistakes''\<rparr>"

definition demo_request :: webhook_request where
  "demo_request = \<lparr>run_date = ''2025-01-15'', timezone = ''America/New_York''\<rparr>"

definition query_url :: "string \<Rightarrow> string" where
  "query_url database_id = NOTION_BASE_URL @ ''/databases/'' @ database_id @ ''/query''"

definition table_service :: "(string \<times> post_outcome) list \<Rightarrow> nat transport" where
  "table_service tbl s url hdrs b =
     ((case map_of tbl url of Some r \<Rightarrow> r | None \<Rightarrow> RequestFailed), Suc s)"

definition results_reply :: "json list \<Rightarrow> post_outcome" where
  "results_reply rows = Response 200 [] (Some (JObj [(''results'', JArr rows)]))"

definition rich_text_prop :: "string \<Rightarrow> json" where
  "rich_text_prop t =
     JObj [(''type'', JStr ''rich_text''), (''rich_text'', JArr [JObj [(''plain_text'', JStr t)]])]"

definition checkbox_prop :: "bool \<Rightarrow> json" where
  "checkbox_prop b = JObj [(''type'', JStr ''checkbox''), (''checkbox'', JBool b)]"

definition demo_plan :: "bool \<Rightarrow> bool \<Rightarrow> json" where
  "demo_plan done1 done2 =
     JObj [(''properties'', JObj
       [(''Session 1 Done'', checkbox_prop done1),
        (''Session 2 Done'', checkbox_prop done2),
        (''Phase'', rich_text_prop ''Phase 1''),
        (''Focus objectives (IDs)'', rich_text_prop ''OBJ-01..02''),
        (''Session 1 Resources (IDs/URLs)'', rich_text_prop ''RES-1''),
        (''Session 2 Resources (IDs/URLs)'', rich_text_prop ''RES-2'')])]"

definition demo_details :: plan_details where
  "demo_details =
     \<lparr>phase = ''Phase 1'', focus_priority = JStr [],
      session1_text = [], session1_resources_raw = ''RES-1'',
      session2_text = [], session2_resources_raw = ''RES-2'',
      focus_objectives_raw = ''OBJ-01..02''\<rparr>"

definition demo_mistake :: "string \<Rightarrow> string \<Rightarrow> json" where
  "demo_mistake obj_id summary =
     JObj [(''properties'', JObj
       [(''Objective ID'', rich_text_prop obj_id),
        (''Mistake Summary'', rich_text_prop summary)])]"

text \<open>A mistake record whose objective identifier is not text.\<close>

definition broken_mistake :: json where
  "broken_mistake =
     JObj [(''properties'', JObj
       [(''Objective ID'',
         JObj [(''type'', JStr ''rich_text''), (''rich_text'', JArr [JObj [(''plain_text'', JNum 5)]])])])]"

text \<open>
  Sample services. In all of them every objective, resource and practice-test query
  fails. The plan table holds one open plan row, except where said.
\<close>

definition no_plan_service :: "nat transport" where
  "no_plan_service = table_service [(query_url ''plan'', results_reply [])]"

definition completed_service :: "nat transport" where
  "completed_service = table_service [(query_url ''plan'', results_reply [demo_plan True True])]"

definition unavailable_service :: "nat transport" where
  "unavailable_service = table_service [(query_url ''plan'', Response 503 ''unavailable'' None)]"

definition open_service :: "json list \<Rightarrow> nat transport" where
  "open_service mistake_rows =
     table_service [(query_url ''plan'', results_reply [demo_plan False True]),
                    (query_url ''mistakes'', results_reply mistake_rows)]"

definition five_mistakes :: "json list" where
  "five_mistakes =
     [demo_mistake ''OBJ-01'' ''m1'', demo_mistake ''OBJ-02'' ''m2'',
      demo_mistake ''OBJ-01'' ''m3'', demo_mistake ''OBJ-02'' ''m4'', broken_mistake]"


section \<open>Properties of the identifier range expander\<close>

lemma of_char_digit_char: "d < 10 \<Longrightarrow> (of_char (digit_char d) :: nat) = 48 + d"
  by (simp add: digit_char_def)

lemma int_of_digits_snoc:
  "int_of_digits (xs @ [c]) = 10 * int_of_digits xs + (of_char c - 48)"
  by (simp add: int_of_digits_def)

lemma int_of_digits_str_nat: "int_of_digits (str_nat n) = n"
proof (induction n rule: str_nat.induct)
  case (1 n)
  show ?case
  proof (cases "n < 10")
    case True
    then show ?thesis
      by (subst str_nat.simps) (simp add: int_of_digits_def of_char_digit_char)
  next
    case False
    have "int_of_digits (str_nat n) =
          10 * int_of_digits (str_nat (n div 10)) + (of_char (digit_char (n mod 10)) - 48)"
      using False by (subst str_nat.simps) (simp add: int_of_digits_snoc)
    also have "\<dots> = 10 * (n div 10) + n mod 10"
      using False "1.IH" by (simp add: of_char_digit_char)
    finally show ?thesis by simp
  qed
qed

lemma int_of_digits_zeros: "int_of_digits (replicate k (CHR ''0'') @ s) = int_of_digits s"
proof -
  have "foldl (\<lambda>a c. 10 * a + (of_char c - 48)) (0::nat) (replicate k (CHR ''0'')) = 0"
    by (induction k) simp_all
  then show ?thesis by (simp add: int_of_digits_def)
qed

lemma int_of_digits_zfill: "int_of_digits (zfill w (str_nat i)) = i"
  by (simp add: zfill_def int_of_digits_zeros int_of_digits_str_nat)

lemma length_zfill: "length (zfill w s) = max w (length s)"
  by (simp add: zfill_def)

lemma set_range_ids:
  "set (range_ids p a b w) = (\<lambda>i. p @ zfill w (str_nat i)) ` {a..b}"
proof -
  have "set [a..<b + 1] = {a..b}" by auto
  then show ?thesis by (simp only: range_ids_def set_map)
qed

lemma fold_insert_union: "fold insert xs A = A \<union> set xs"
  using union_set_fold [of xs A] by (simp add: Un_commute)

lemma add_token_range:
  "range_match t = Some (p, a, b) \<Longrightarrow>
   add_token t ids =
     ids \<union> (\<lambda>i. p @ zfill (length a) (str_nat i)) ` {int_of_digits a..int_of_digits b}"
  by (simp add: add_token_def fold_insert_union set_range_ids)

lemma add_token_range2:
  "range_match t = None \<Longrightarrow> range_match2 t = Some (p, a, p, b) \<Longrightarrow>
   add_token t ids =
     ids \<union> (\<lambda>i. p @ zfill (length a) (str_nat i)) ` {int_of_digits a..int_of_digits b}"
  by (simp add: add_token_def fold_insert_union set_range_ids)


lemma sorted_parse_id_list: "sorted (parse_id_list raw)"
  by (simp add: parse_id_list_def)

lemma distinct_parse_id_list: "distinct (parse_id_list raw)"
  by (simp add: parse_id_list_def)

lemma expand_short_range:
  "parse_id_list ''P-ENTRA-01..04'' = [''P-ENTRA-01'', ''P-ENTRA-02'', ''P-ENTRA-03'', ''P-ENTRA-04'']"
  by code_simp

lemma expand_long_range:
  "parse_id_list ''P-ENTRA-01..P-ENTRA-03'' = [''P-ENTRA-01'', ''P-ENTRA-02'', ''P-ENTRA-03'']"
  by code_simp

lemma expand_duplicates: "parse_id_list ''A-1, A-1, B-2'' = [''A-1'', ''B-2'']"
  by code_simp

lemma expand_reversed: "parse_id_list ''X-9..7'' = []"
  by code_simp

lemma expand_solo: "parse_id_list ''SOLO'' = [''SOLO'']"
  by code_simp

text \<open>
  Claim C2. The expander maps \<open>P-ENTRA-01..04\<close> to the four identifiers from 01 to 04,
  \<open>P-ENTRA-01..P-ENTRA-03\<close> to the three from 01 to 03, \<open>A-1, A-1, B-2\<close> to \<open>A-1\<close> and
  \<open>B-2\<close>, the reversed range \<open>X-9..7\<close> to nothing and \<open>SOLO\<close> to itself. For every input
  the result is sorted and free of duplicates. A token matched by either range pattern
  adds, for every number from the first to the last, the captured prefix followed by
  the number padded with zeros on the left to the width of the first digit run: the
  padded text has at least that width and reads as the number.
\<close>

theorem parse_id_list_expansion:
  "parse_id_list ''P-ENTRA-01..04'' = [''P-ENTRA-01'', ''P-ENTRA-02'', ''P-ENTRA-03'', ''P-ENTRA-04'']
   \<and> parse_id_list ''P-ENTRA-01..P-ENTRA-03'' = [''P-ENTRA-01'', ''P-ENTRA-02'', ''P-ENTRA-03'']
   \<and> parse_id_list ''A-1, A-1, B-2'' = [''A-1'', ''B-2'']
   \<and> parse_id_list ''X-9..7'' = []
   \<and> parse_id_list ''SOLO'' = [''SOLO'']
   \<and> (\<forall>raw. sorted (parse_id_list raw) \<and> distinct (parse_id_list raw))
   \<and> (\<forall>t p a b ids. range_match t = Some (p, a, b) \<longrightarrow>
         add_token t ids =
           ids \<union> (\<lambda>i. p @ zfill (length a) (str_nat i)) ` {int_of_digits a..int_of_digits b})
   \<and> (\<forall>t p a b ids. range_match t = None \<and> range_match2 t = Some (p, a, p, b) \<longrightarrow>
         add_token t ids =
           ids \<union> (\<lambda>i. p @ zfill (length a) (str_nat i)) ` {int_of_digits a..int_of_digits b})
   \<and> (\<forall>w i. zfill w (str_nat i) = replicate (w - length (str_nat i)) (CHR ''0'') @ str_nat i
         \<and> length (zfill w (str_nat i)) = max w (length (str_nat i))
         \<and> int_of_digits (zfill w (str_nat i)) = i)"
proof (intro conjI allI impI)
  fix w i
  show "zfill w (str_nat i) = replicate (w - length (str_nat i)) (CHR ''0'') @ str_nat i"
    by (simp add: zfill_def)
next
  fix t p a b ids
  assume "range_match t = None \<and> range_match2 t = Some (p, a, p, b)"
  then show "add_token t ids =
     ids \<union> (\<lambda>i. p @ zfill (length a) (str_nat i)) ` {int_of_digits a..int_of_digits b}"
    by (simp add: add_token_range2)
qed (simp_all add: expand_short_range expand_long_range expand_duplicates expand_reversed
       expand_solo sorted_parse_id_list distinct_parse_id_list add_token_range
       length_zfill int_of_digits_zfill)

theorem parse_id_list_expansion_witness:
  "range_match ''P-ENTRA-01..04'' = Some (''P-ENTRA-'', ''01'', ''04'')
   \<and> add_token ''P-ENTRA-01..04'' {} = (\<lambda>i. ''P-ENTRA-'' @ zfill 2 (str_nat i)) ` {1..4}"
proof -
  have m: "range_match ''P-ENTRA-01..04'' = Some (''P-ENTRA-'', ''01'', ''04'')"
    by code_simp
  have "\<forall>t p a b ids. range_match t = Some (p, a, b) \<longrightarrow>
          add_token t ids =
            ids \<union> (\<lambda>i. p @ zfill (length a) (str_nat i)) ` {int_of_digits a..int_of_digits b}"
    using parse_id_list_expansion by (elim conjE)
  then have step: "add_token ''P-ENTRA-01..04'' {} =
      {} \<union> (\<lambda>i. ''P-ENTRA-'' @ zfill (length ''01'') (str_nat i)) ` {int_of_digits ''01''..int_of_digits ''04''}"
    using m by blast
  have w: "length ''01'' = 2"
    by simp
  have a: "int_of_digits ''01'' = 1" and b: "int_of_digits ''04'' = 4"
    by (simp_all add: int_of_digits_def)
  have "add_token ''P-ENTRA-01..04'' {} = (\<lambda>i. ''P-ENTRA-'' @ zfill 2 (str_nat i)) ` {1..4}"
    using step unfolding w a b Un_empty_left .
  then show ?thesis
    using m by (rule conjI [rotated])
qed

subsection \<open>Re-expanding plain identifiers\<close>














section \<open>Properties of the record field extractors\<close>

text \<open>
  Claim C8. Given an absent property container (\<open>None\<close>) or an empty one, each extractor
  returns its default and raises nothing: the empty string for the text, single-choice,
  date and URL extractors, \<open>False\<close> for the boolean one. The same holds for a property
  read by name from a page that has no properties.
\<close>

theorem extractors_default:
  "extract_rich_text JNull = Inr [] \<and> extract_rich_text (JObj []) = Inr []
   \<and> extract_select JNull = Inr (JStr []) \<and> extract_select (JObj []) = Inr (JStr [])
   \<and> extract_checkbox JNull = Inr (JBool False) \<and> extract_checkbox (JObj []) = Inr (JBool False)
   \<and> extract_date JNull = Inr (JStr []) \<and> extract_date (JObj []) = Inr (JStr [])
   \<and> extract_url JNull = Inr (JStr []) \<and> extract_url (JObj []) = Inr (JStr [])
   \<and> ebind (get_prop (JObj []) name) extract_rich_text = Inr []
   \<and> ebind (get_prop (JObj []) name) extract_select = Inr (JStr [])
   \<and> ebind (get_prop (JObj []) name) extract_checkbox = Inr (JBool False)
   \<and> ebind (get_prop (JObj []) name) extract_date = Inr (JStr [])
   \<and> ebind (get_prop (JObj []) name) extract_url = Inr (JStr [])"
  by (simp add: extract_rich_text_def extract_select_def extract_checkbox_def extract_date_def
        extract_url_def get_prop_def py_get_def ebind_def)

section \<open>Properties of the digest builder\<close>

subsection \<open>Auxiliary facts\<close>

lemma ebind_simps [simp]:
  "ebind (Inl e) f = Inl e" "ebind (Inr v) f = f v"
  by (simp_all add: ebind_def)

lemma plan_query_post:
  "plan_query cfg post s request =
     (case post s (query_url (PLAN_DB_ID cfg)) (headers (NOTION_TOKEN cfg)) (plan_request_body request) of
        (RequestFailed, s') \<Rightarrow> (Inl RequestError, s')
      | (Response status_code text js, s') \<Rightarrow>
          (if status_code \<noteq> 200 then
             (Inl (HTTPException 502 (''Notion API error: '' @ str_nat status_code @ '' - '' @ text)), s')
           else (case js of
                   None \<Rightarrow> (Inl ValueError, s')
                 | Some data \<Rightarrow> (py_get data ''results'' (JArr []), s'))))"
  by (simp add: plan_query_def query_by_date_def query_database_def query_url_def plan_request_body_def)

lemma generate_past_checks:
  assumes "authenticated cfg tok" and "configured cfg"
  shows "generate_study_email cfg post py_str s request tok =
     (case plan_query cfg post s request of
        (Inl e, s1) \<Rightarrow>
          (case e of
             HTTPException status_code detail \<Rightarrow>
               Inr (JSONResponse status_code (JObj [(''error'', JStr detail)]))
           | _ \<Rightarrow> Inl e)
      | (Inr plan_results, s1) \<Rightarrow>
          (if \<not> truthy plan_results then
             Inr (returned (early_response ''no_plan'' (initial_debug request)))
           else ebind (py_index0 plan_results) (digest_for_plan cfg post py_str s1 request)))"
  using assms
  by (simp add: generate_study_email_def authenticated_def configured_def plan_query_def)

lemma generate_upstream_error:
  assumes "authenticated cfg tok" and "configured cfg"
    and "post s (query_url (PLAN_DB_ID cfg)) (headers (NOTION_TOKEN cfg)) (plan_request_body request)
           = (Response status_code text js, s1)"
    and "status_code \<noteq> 200"
  shows "generate_study_email cfg post py_str s request tok =
     Inr (JSONResponse 502
            (JObj [(''error'', JStr (''Notion API error: '' @ str_nat status_code @ '' - '' @ text))]))"
  using assms(3,4) by (simp add: generate_past_checks [OF assms(1,2)] plan_query_post)

lemma generate_no_plan:
  assumes "authenticated cfg tok" and "configured cfg"
    and "fst (plan_query cfg post s request) = Inr (JArr [])"
  shows "generate_study_email cfg post py_str s request tok =
     Inr (returned (early_response ''no_plan'' (initial_debug request)))"
  using assms(3)
  by (cases "plan_query cfg post s request") (simp add: generate_past_checks [OF assms(1,2)])

lemma generate_plan_found:
  assumes "authenticated cfg tok" and "configured cfg"
    and "plan_query cfg post s request = (Inr (JArr (plan # rows)), s1)"
  shows "generate_study_email cfg post py_str s request tok =
     digest_for_plan cfg post py_str s1 request plan"
  using assms(3) by (simp add: generate_past_checks [OF assms(1,2)] py_index0_def)

lemma digest_completed:
  assumes "session_done plan ''Session 1 Done'' = Inr f1"
    and "session_done plan ''Session 2 Done'' = Inr f2"
    and "truthy f1" and "truthy f2"
  shows "digest_for_plan cfg post py_str s1 request plan =
     Inr (returned (early_response ''completed'' (initial_debug request)))"
  using assms by (simp add: digest_for_plan_def session_done_def)


lemma content_field_returned:
  "content_field ''should_send'' (returned r) = Some (JBool (should_send r))"
  "content_field ''subject'' (returned r) = Some (JStr (subject r))"
  "content_field ''body'' (returned r) = Some (JStr (body r))"
  "content_field ''reason'' (returned r) = Some (JStr (reason r))"
  "content_field ''debug'' (returned r) =
     Some (JObj [(''date'', JStr (date (debug r))),
                 (''objectives_count'', JNum (objectives_count (debug r))),
                 (''resources_count'', JNum (resources_count (debug r))),
                 (''practice_test_found'', JBool (practice_test_found (debug r))),
                 (''mistakes_found'', JNum (mistakes_found (debug r)))])"
  by (simp_all add: content_field_def returned_def model_dump_def)

lemma has_envelope_returned: "has_envelope (returned r)"
  by (simp add: has_envelope_def envelope_keys_def content_field_returned)

lemma has_envelope_handler: "has_envelope (global_exception_handler msg)"
  by (simp add: has_envelope_def envelope_keys_def content_field_def global_exception_handler_def JSONResponse_def)

lemma no_envelope_error:
  "content_field k (JSONResponse c (JObj [(''error'', v)])) = (if k = ''error'' then Some v else None)"
  by (simp add: content_field_def JSONResponse_def)









lemma shape_mistake_Some:
  assumes "shape_mistake ids m = Inr (Some x)"
  shows "text_of m ''Objective ID'' = Inr (m_objective_id x) \<and> m_objective_id x \<in> set ids"
proof (cases "text_of m ''Objective ID''")
  case (Inl e)
  then show ?thesis using assms by (simp add: shape_mistake_def)
next
  case (Inr oid)
  show ?thesis
  proof (cases "oid \<in> set ids")
    case False
    then show ?thesis using assms Inr by (simp add: shape_mistake_def)
  next
    case True
    then show ?thesis
      using assms Inr by (auto simp: shape_mistake_def ebind_def split: sum.splits)
  qed
qed

lemma collect_mistakes_ids:
  "\<forall>m\<in>set acc. m_objective_id m \<in> set ids \<Longrightarrow>
   \<forall>m\<in>set (fst (collect_mistakes ids rows acc)). m_objective_id m \<in> set ids"
proof (induction rows arbitrary: acc)
  case Nil
  then show ?case by simp
next
  case (Cons row rows)
  consider (raised) e where "shape_mistake ids row = Inl e"
    | (skipped) "shape_mistake ids row = Inr None"
    | (kept) x where "shape_mistake ids row = Inr (Some x)"
    by (cases "shape_mistake ids row") auto
  then show ?case
  proof cases
    case raised
    then show ?thesis using Cons.prems by simp
  next
    case skipped
    then show ?thesis using Cons.IH [OF Cons.prems] by simp
  next
    case kept
    have "\<forall>m\<in>set (acc @ [x]). m_objective_id m \<in> set ids"
      using Cons.prems shape_mistake_Some [OF kept] by simp
    from Cons.IH [OF this] show ?thesis using kept by simp
  qed
qed

lemma fetch_mistakes_ids:
  assumes "fetch_mistakes cfg post s ids dbg = ((ms, dbg'), s')"
  shows "\<forall>m\<in>set ms. m_objective_id m \<in> set ids"
proof -
  have inv: "\<And>rows. \<forall>m\<in>set (fst (collect_mistakes ids rows [])). m_objective_id m \<in> set ids"
    by (rule collect_mistakes_ids) simp
  obtain q s1 where q: "query_unresolved_mistakes post s (NOTION_TOKEN cfg) (MISTAKES_DB_ID cfg) = (q, s1)"
    by (cases "query_unresolved_mistakes post s (NOTION_TOKEN cfg) (MISTAKES_DB_ID cfg)")
  show ?thesis
  proof (cases q)
    case (Inl e)
    then show ?thesis using assms q by (simp add: fetch_mistakes_def)
  next
    case (Inr all_mistakes)
    show ?thesis
    proof (cases "py_iter all_mistakes")
      case (Inl e)
      then show ?thesis using assms q Inr by (simp add: fetch_mistakes_def)
    next
      case rows: (Inr rows)
      obtain acc fin where c: "collect_mistakes ids rows [] = (acc, fin)"
        by (cases "collect_mistakes ids rows []")
      have acc: "\<forall>m\<in>set acc. m_objective_id m \<in> set ids"
        using inv [of rows] c by simp
      have "ms = acc \<or> ms = take 3 acc"
        using assms q Inr rows c by (cases fin) (auto simp: fetch_mistakes_def)
      then show ?thesis
        using acc by (auto dest: in_set_takeD)
    qed
  qed
qed






subsection \<open>The early terminal states\<close>

text \<open>
  Claim C6. For every authenticated and configured request: when the plan lookup
  returns zero rows, the response is sent with \<open>should_send\<close> false and the reason
  \<open>no_plan\<close>; when it returns a first row whose two completion flags are both true, the
  response is sent with \<open>should_send\<close> false and the reason \<open>completed\<close>, whatever
  else the row holds.
\<close>

theorem early_exit_reasons:
  assumes "authenticated cfg tok" and "configured cfg"
  shows "(fst (plan_query cfg post s request) = Inr (JArr []) \<longrightarrow>
            (\<exists>r. generate_study_email cfg post py_str s request tok = Inr r
                 \<and> content_field ''should_send'' r = Some (JBool False)
                 \<and> content_field ''reason'' r = Some (JStr ''no_plan'')))
       \<and> (fst (plan_query cfg post s request) = Inr (JArr (plan # rows))
            \<and> session_done plan ''Session 1 Done'' = Inr f1
            \<and> session_done plan ''Session 2 Done'' = Inr f2
            \<and> truthy f1 \<and> truthy f2 \<longrightarrow>
            (\<exists>r. generate_study_email cfg post py_str s request tok = Inr r
                 \<and> content_field ''should_send'' r = Some (JBool False)
                 \<and> content_field ''reason'' r = Some (JStr ''completed'')))"
proof (intro conjI impI)
  assume "fst (plan_query cfg post s request) = Inr (JArr [])"
  then have "generate_study_email cfg post py_str s request tok =
             Inr (returned (early_response ''no_plan'' (initial_debug request)))"
    using assms by (simp add: generate_no_plan)
  then show "\<exists>r. generate_study_email cfg post py_str s request tok = Inr r
                 \<and> content_field ''should_send'' r = Some (JBool False)
                 \<and> content_field ''reason'' r = Some (JStr ''no_plan'')"
    by (simp add: content_field_returned early_response_def)
next
  assume h: "fst (plan_query cfg post s request) = Inr (JArr (plan # rows))
            \<and> session_done plan ''Session 1 Done'' = Inr f1
            \<and> session_done plan ''Session 2 Done'' = Inr f2
            \<and> truthy f1 \<and> truthy f2"
  obtain s1 where "plan_query cfg post s request = (Inr (JArr (plan # rows)), s1)"
    using h by (cases "plan_query cfg post s request") simp
  then have "generate_study_email cfg post py_str s request tok =
             Inr (returned (early_response ''completed'' (initial_debug request)))"
    using assms h by (simp add: generate_plan_found digest_completed)
  then show "\<exists>r. generate_study_email cfg post py_str s request tok = Inr r
                 \<and> content_field ''should_send'' r = Some (JBool False)
                 \<and> content_field ''reason'' r = Some (JStr ''completed'')"
    by (simp add: content_field_returned early_response_def)
qed

lemma demo_authenticated: "authenticated demo_cfg (Some ''token'')"
  by (simp add: authenticated_def demo_cfg_def)

lemma demo_configured: "configured demo_cfg"
  by (simp add: configured_def missing_dbs_def demo_cfg_def)

lemma demo_no_plan: "fst (plan_query demo_cfg no_plan_service 0 demo_request) = Inr (JArr [])"
  by code_simp

lemma demo_completed_plan:
  "fst (plan_query demo_cfg completed_service 0 demo_request) = Inr (JArr (demo_plan True True # []))"
  by code_simp

lemma demo_completed_flags:
  "session_done (demo_plan True True) ''Session 1 Done'' = Inr (JBool True)"
  "session_done (demo_plan True True) ''Session 2 Done'' = Inr (JBool True)"
  by code_simp+

theorem early_exit_reasons_witness:
  "authenticated demo_cfg (Some ''token'') \<and> configured demo_cfg
   \<and> fst (plan_query demo_cfg no_plan_service 0 demo_request) = Inr (JArr [])
   \<and> (\<exists>r. generate_study_email demo_cfg no_plan_service (\<lambda>v. []) 0 demo_request (Some ''token'') = Inr r
          \<and> content_field ''should_send'' r = Some (JBool False)
          \<and> content_field ''reason'' r = Some (JStr ''no_plan''))
   \<and> fst (plan_query demo_cfg completed_service 0 demo_request) = Inr (JArr [demo_plan True True])
   \<and> session_done (demo_plan True True) ''Session 1 Done'' = Inr (JBool True)
   \<and> session_done (demo_plan True True) ''Session 2 Done'' = Inr (JBool True)
   \<and> (\<exists>r. generate_study_email demo_cfg completed_service (\<lambda>v. []) 0 demo_request (Some ''token'') = Inr r
          \<and> content_field ''should_send'' r = Some (JBool False)
          \<and> content_field ''reason'' r = Some (JStr ''completed''))"
proof -
  have 1: "\<exists>r. generate_study_email demo_cfg no_plan_service (\<lambda>v. []) 0 demo_request (Some ''token'') = Inr r
          \<and> content_field ''should_send'' r = Some (JBool False)
          \<and> content_field ''reason'' r = Some (JStr ''no_plan'')"
    using early_exit_reasons [OF demo_authenticated demo_configured,
        where post = no_plan_service and s = 0 and request = demo_request and py_str = "\<lambda>v. []"]
      demo_no_plan
    by blast
  have 2: "\<exists>r. generate_study_email demo_cfg completed_service (\<lambda>v. []) 0 demo_request (Some ''token'') = Inr r
          \<and> content_field ''should_send'' r = Some (JBool False)
          \<and> content_field ''reason'' r = Some (JStr ''completed'')"
    using early_exit_reasons [OF demo_authenticated demo_configured,
        where post = completed_service and s = 0 and request = demo_request and py_str = "\<lambda>v. []"
          and plan = "demo_plan True True" and rows = "[]" and ?f1.0 = "JBool True" and ?f2.0 = "JBool True"]
      demo_completed_plan demo_completed_flags
    by simp
  show ?thesis
    using 1 2 demo_authenticated demo_configured demo_no_plan demo_completed_plan demo_completed_flags
    by (intro conjI)
qed

text \<open>
  Claim C10. In the \<open>no_plan\<close> and \<open>completed\<close> states the subject and the body of the
  response are empty, the three counts are zero and \<open>practice_test_found\<close> is false;
  the date of the debug summary is the date of the request.
\<close>

theorem early_exit_frame:
  assumes "authenticated cfg tok" and "configured cfg"
    and "fst (plan_query cfg post s request) = Inr (JArr [])
         \<or> (fst (plan_query cfg post s request) = Inr (JArr (plan # rows))
            \<and> session_done plan ''Session 1 Done'' = Inr f1
            \<and> session_done plan ''Session 2 Done'' = Inr f2
            \<and> truthy f1 \<and> truthy f2)"
  shows "\<exists>r. generate_study_email cfg post py_str s request tok = Inr r
           \<and> (content_field ''reason'' r = Some (JStr ''no_plan'')
                \<or> content_field ''reason'' r = Some (JStr ''completed''))
           \<and> content_field ''subject'' r = Some (JStr [])
           \<and> content_field ''body'' r = Some (JStr [])
           \<and> content_field ''debug'' r =
                Some (JObj [(''date'', JStr (run_date request)),
                            (''objectives_count'', JNum 0),
                            (''resources_count'', JNum 0),
                            (''practice_test_found'', JBool False),
                            (''mistakes_found'', JNum 0)])"
proof -
  have "generate_study_email cfg post py_str s request tok =
          Inr (returned (early_response ''no_plan'' (initial_debug request)))
        \<or> generate_study_email cfg post py_str s request tok =
          Inr (returned (early_response ''completed'' (initial_debug request)))"
    using assms(3)
  proof
    assume "fst (plan_query cfg post s request) = Inr (JArr [])"
    then show ?thesis using assms(1,2) by (simp add: generate_no_plan)
  next
    assume h: "fst (plan_query cfg post s request) = Inr (JArr (plan # rows))
            \<and> session_done plan ''Session 1 Done'' = Inr f1
            \<and> session_done plan ''Session 2 Done'' = Inr f2
            \<and> truthy f1 \<and> truthy f2"
    obtain s1 where "plan_query cfg post s request = (Inr (JArr (plan # rows)), s1)"
      using h by (cases "plan_query cfg post s request") simp
    then show ?thesis
      using assms(1,2) h by (simp add: generate_plan_found digest_completed)
  qed
  then show ?thesis
  proof
    assume g: "generate_study_email cfg post py_str s request tok =
          Inr (returned (early_response ''no_plan'' (initial_debug request)))"
    show ?thesis
      by (rule exI [of _ "returned (early_response ''no_plan'' (initial_debug request))"])
         (simp add: g content_field_returned early_response_def initial_debug_def)
  next
    assume g: "generate_study_email cfg post py_str s request tok =
          Inr (returned (early_response ''completed'' (initial_debug request)))"
    show ?thesis
      by (rule exI [of _ "returned (early_response ''completed'' (initial_debug request))"])
         (simp add: g content_field_returned early_response_def initial_debug_def)
  qed
qed

theorem early_exit_frame_witness:
  "authenticated demo_cfg (Some ''token'') \<and> configured demo_cfg
   \<and> fst (plan_query demo_cfg completed_service 0 demo_request) = Inr (JArr [demo_plan True True])
   \<and> session_done (demo_plan True True) ''Session 1 Done'' = Inr (JBool True)
   \<and> session_done (demo_plan True True) ''Session 2 Done'' = Inr (JBool True)
   \<and> (\<exists>r. generate_study_email demo_cfg completed_service (\<lambda>v. []) 0 demo_request (Some ''token'') = Inr r
          \<and> content_field ''subject'' r = Some (JStr [])
          \<and> content_field ''body'' r = Some (JStr [])
          \<and> content_field ''debug'' r =
                Some (JObj [(''date'', JStr (run_date demo_request)),
                            (''objectives_count'', JNum 0),
                            (''resources_count'', JNum 0),
                            (''practice_test_found'', JBool False),
                            (''mistakes_found'', JNum 0)]))"
proof -
  have "\<exists>r. generate_study_email demo_cfg completed_service (\<lambda>v. []) 0 demo_request (Some ''token'') = Inr r
          \<and> content_field ''subject'' r = Some (JStr [])
          \<and> content_field ''body'' r = Some (JStr [])
          \<and> content_field ''debug'' r =
                Some (JObj [(''date'', JStr (run_date demo_request)),
                            (''objectives_count'', JNum 0),
                            (''resources_count'', JNum 0),
                            (''practice_test_found'', JBool False),
                            (''mistakes_found'', JNum 0)])"
    using early_exit_frame [OF demo_authenticated demo_configured,
        where post = completed_service and s = 0 and request = demo_request and py_str = "\<lambda>v. []"
          and plan = "demo_plan True True" and rows = "[]" and ?f1.0 = "JBool True" and ?f2.0 = "JBool True"]
      demo_completed_plan demo_completed_flags
    by auto
  then show ?thesis
    using demo_authenticated demo_configured demo_completed_plan demo_completed_flags
    by (intro conjI)
qed

subsection \<open>A failed plan lookup\<close>

text \<open>
  Claim C3, as the claim states it, fails: when the service answers the plan query with
  status 503, the response has the status 502 and a content with the single field
  \<open>error\<close>; it has no field \<open>reason\<close> and not the envelope.
\<close>

theorem plan_lookup_error_no_envelope:
  "webhook (\<lambda>e. []) demo_cfg unavailable_service (\<lambda>v. []) 0 demo_request (Some ''token'')
     = (502, JObj [(''error'', JStr ''Notion API error: 503 - unavailable'')])
   \<and> content_field ''reason''
         (webhook (\<lambda>e. []) demo_cfg unavailable_service (\<lambda>v. []) 0 demo_request (Some ''token''))
       = None
   \<and> \<not> has_envelope
         (webhook (\<lambda>e. []) demo_cfg unavailable_service (\<lambda>v. []) 0 demo_request (Some ''token''))"
  by code_simp

text \<open>
  Claim C3, amended. For an authenticated and configured request whose plan query the
  service answers with a status other than 200, the response has the status 502 and
  the content \<open>{"error": "Notion API error: <status> - <text>"}\<close>, with the status and
  the raw text of the service's answer; it has none of the five envelope fields. The
  responses of the \<open>no_plan\<close>, \<open>completed\<close> and \<open>ok\<close> states and of the handler of
  uncaught exceptions have all five.
\<close>

theorem plan_lookup_error_response:
  assumes "authenticated cfg tok" and "configured cfg"
    and "post s (query_url (PLAN_DB_ID cfg)) (headers (NOTION_TOKEN cfg)) (plan_request_body request)
           = (Response status_code text js, s1)"
    and "status_code \<noteq> 200"
  shows "webhook str_exc cfg post py_str s request tok =
           JSONResponse 502
             (JObj [(''error'', JStr (''Notion API error: '' @ str_nat status_code @ '' - '' @ text))])
         \<and> list_all (\<lambda>k. content_field k (webhook str_exc cfg post py_str s request tok) = None)
              envelope_keys
         \<and> has_envelope (returned r)
         \<and> has_envelope (global_exception_handler msg)"
proof -
  have "webhook str_exc cfg post py_str s request tok =
           JSONResponse 502
             (JObj [(''error'', JStr (''Notion API error: '' @ str_nat status_code @ '' - '' @ text))])"
    using generate_upstream_error [where post = post and s = s, OF assms] by (simp add: webhook_def)
  then show ?thesis
    by (simp add: no_envelope_error envelope_keys_def has_envelope_returned has_envelope_handler)
qed

lemma demo_unavailable:
  "unavailable_service 0 (query_url (PLAN_DB_ID demo_cfg)) (headers (NOTION_TOKEN demo_cfg))
      (plan_request_body demo_request) = (Response 503 ''unavailable'' None, 1)"
  by code_simp

theorem plan_lookup_error_response_witness:
  "authenticated demo_cfg (Some ''token'') \<and> configured demo_cfg
   \<and> unavailable_service 0 (query_url (PLAN_DB_ID demo_cfg)) (headers (NOTION_TOKEN demo_cfg))
        (plan_request_body demo_request) = (Response 503 ''unavailable'' None, 1)
   \<and> (503::nat) \<noteq> 200
   \<and> webhook (\<lambda>e. []) demo_cfg unavailable_service (\<lambda>v. []) 0 demo_request (Some ''token'') =
        JSONResponse 502 (JObj [(''error'', JStr (''Notion API error: '' @ str_nat 503 @ '' - '' @ ''unavailable''))])"
proof -
  have n: "(503::nat) \<noteq> 200"
    by simp
  have "webhook (\<lambda>e. []) demo_cfg unavailable_service (\<lambda>v. []) 0 demo_request (Some ''token'') =
        JSONResponse 502 (JObj [(''error'', JStr (''Notion API error: '' @ str_nat 503 @ '' - '' @ ''unavailable''))])"
    using plan_lookup_error_response [where post = unavailable_service and s = 0,
        OF demo_authenticated demo_configured demo_unavailable n]
    by (rule conjunct1)
  then show ?thesis
    using demo_authenticated demo_configured demo_unavailable n by (intro conjI)
qed

subsection \<open>The assembly\<close>





lemma assemble_facts:
  assumes "steps_6_to_10 cfg post s rd d dbg = ((ids, objs, rids, ress, pt, dbg3), s4)"
    and "fetch_mistakes cfg post s4 ids dbg3 = ((ms, dbg4), s5)"
  shows "assemble cfg post s rd d dbg =
           \<lparr>a_objective_ids = ids, a_objectives = objs, a_resource_ids = rids,
            a_resources = ress, a_practice_test = pt, a_mistakes = ms, a_debug = dbg4\<rparr>"
  using assms by (simp add: assemble_def)




subsection \<open>The debug summary\<close>







subsection \<open>The mistakes of the day\<close>

text \<open>
  The objective identifier of every mistake in the output is one of the expanded
  objective identifiers, and when the mistakes step runs to its end the output holds at
  most three mistakes.
\<close>

lemma mistakes_about_expanded_ids:
  "\<forall>m\<in>set (a_mistakes (assemble cfg post s rd d dbg)).
      m_objective_id m \<in> set (a_objective_ids (assemble cfg post s rd d dbg))"
proof -
  obtain ids objs rids ress pt dbg3 s4 where
    st: "steps_6_to_10 cfg post s rd d dbg = ((ids, objs, rids, ress, pt, dbg3), s4)"
    by (metis prod_cases3 surj_pair)
  obtain ms dbg4 s5 where fm: "fetch_mistakes cfg post s4 ids dbg3 = ((ms, dbg4), s5)"
    by (metis surj_pair)
  show ?thesis
    using fetch_mistakes_ids [OF fm] by (simp add: assemble_facts [OF st fm])
qed

text \<open>
  Claim C5 fails on the code. The mistakes table returns four unresolved mistakes about
  today's objectives and then a record whose objective identifier is not text. The
  exception of the fifth record leaves the \<open>try\<close> block before the list is cut to three
  and before \<open>mistakes_found\<close> is set: the response is \<open>ok\<close>, it lists four mistakes
  and counts none.
\<close>

theorem mistakes_cap_skipped_on_fault:
  "generate_study_email demo_cfg (open_service five_mistakes) (\<lambda>v. []) 0 demo_request (Some ''token'')
     = Inr (returned (ok_response (\<lambda>v. []) (run_date demo_request) demo_details
              (assemble demo_cfg (open_service five_mistakes) 1 (run_date demo_request) demo_details
                 (initial_debug demo_request))))
   \<and> map m_summary
        (a_mistakes (assemble demo_cfg (open_service five_mistakes) 1 (run_date demo_request)
           demo_details (initial_debug demo_request)))
      = [''m1'', ''m2'', ''m3'', ''m4'']
   \<and> mistakes_found
        (a_debug (assemble demo_cfg (open_service five_mistakes) 1 (run_date demo_request)
           demo_details (initial_debug demo_request)))
      = 0"
  by code_simp






end
